theory Spec2Isabelle
  imports Complex_Main
begin

section \<open>The Slack notification provider of uptime-kuma\<close>

text \<open>
  A shallow embedding of \<^verbatim>\<open>server/notification-providers/slack.js\<close>: the leveled console
  logger, \<^verbatim>\<open>validateNotificationConfig\<close>, \<^verbatim>\<open>getAllInformationFromTimezone\<close> and the three
  formatters \<^verbatim>\<open>formatDay\<close>, \<^verbatim>\<open>formatDate\<close>, \<^verbatim>\<open>formatTime\<close>.

  Conventions of the model:
  \<^item> a thrown exception is the left summand of a sum, a normal completion the right one;
  \<^item> the object a method mutates is returned updated next to the outcome;
  \<^item> every method also returns the lines it prints with \<^verbatim>\<open>console.log\<close>, in order;
  \<^item> a string is a \<^typ>\<open>string\<close>; a character outside ASCII is written as its UTF-8 bytes.
\<close>

subsection \<open>JavaScript values\<close>

text \<open>
  The values a configuration object (parsed JSON) and the lookup table can hold.
  \<open>JNum\<close> is a finite number (\<open>0\<close> and \<open>-0\<close> are the same real), \<open>JNaN\<close> is \<^verbatim>\<open>NaN\<close>,
  \<open>JObject\<close> is a plain object given by its own properties, and \<open>JBuiltin\<close> is a function
  or object of the runtime, identified by its name (\<^verbatim>\<open>Object\<close>, \<^verbatim>\<open>Object.prototype\<close>, ...).
\<close>

datatype js_value =
    JUndefined
  | JNull
  | JBool bool
  | JNum real
  | JNaN
  | JStr string
  | JArray "js_value list"
  | JObject "(string \<times> js_value) list"
  | JBuiltin string

text \<open>\<^verbatim>\<open>ToBoolean\<close>: what \<^verbatim>\<open>!x\<close> and \<^verbatim>\<open>if (x)\<close> test.\<close>

fun truthy :: "js_value \<Rightarrow> bool" where
  "truthy JUndefined = False"
| "truthy JNull = False"
| "truthy (JBool b) = b"
| "truthy (JNum x) = (x \<noteq> 0)"
| "truthy JNaN = False"
| "truthy (JStr s) = (s \<noteq> [])"
| "truthy (JArray xs) = True"
| "truthy (JObject ps) = True"
| "truthy (JBuiltin name) = True"

text \<open>Exceptions: \<^verbatim>\<open>new Error(message)\<close> of the source, and the \<^verbatim>\<open>TypeError\<close> the runtime raises.\<close>

datatype js_error = Error string | TypeError

subsection \<open>Plain objects and property lookup\<close>

text \<open>
  A plain object (an object literal, or an object made by \<^verbatim>\<open>JSON.parse\<close>) is the map of its
  own properties; its prototype is \<^verbatim>\<open>Object.prototype\<close>. Reading \<^verbatim>\<open>obj[key]\<close> returns the own
  property if there is one, otherwise the property \<^verbatim>\<open>Object.prototype\<close> has under that name,
  otherwise \<^verbatim>\<open>undefined\<close>. The properties of \<^verbatim>\<open>Object.prototype\<close> are those of the language
  standard (with its annex B, as Node.js has them): eleven functions and the accessor
  \<^verbatim>\<open>__proto__\<close>, which returns the prototype of the object read, here \<^verbatim>\<open>Object.prototype\<close>.
\<close>

type_synonym js_object = "string \<rightharpoonup> js_value"

definition object_prototype :: "(string \<times> js_value) list" where
  "object_prototype =
    [(''constructor'', JBuiltin ''Object''),
     (''__defineGetter__'', JBuiltin ''Object.prototype.__defineGetter__''),
     (''__defineSetter__'', JBuiltin ''Object.prototype.__defineSetter__''),
     (''hasOwnProperty'', JBuiltin ''Object.prototype.hasOwnProperty''),
     (''__lookupGetter__'', JBuiltin ''Object.prototype.__lookupGetter__''),
     (''__lookupSetter__'', JBuiltin ''Object.prototype.__lookupSetter__''),
     (''isPrototypeOf'', JBuiltin ''Object.prototype.isPrototypeOf''),
     (''propertyIsEnumerable'', JBuiltin ''Object.prototype.propertyIsEnumerable''),
     (''toString'', JBuiltin ''Object.prototype.toString''),
     (''valueOf'', JBuiltin ''Object.prototype.valueOf''),
     (''__proto__'', JBuiltin ''Object.prototype''),
     (''toLocaleString'', JBuiltin ''Object.prototype.toLocaleString'')]"

definition js_get :: "js_object \<Rightarrow> string \<Rightarrow> js_value" where
  "js_get obj key =
    (case obj key of
       Some v \<Rightarrow> v
     | None \<Rightarrow> (case map_of object_prototype key of Some v \<Rightarrow> v | None \<Rightarrow> JUndefined))"

text \<open>\<^verbatim>\<open>obj[key] = v\<close> on an extensible plain object (no property of the names used is an accessor).\<close>

definition js_set :: "js_object \<Rightarrow> string \<Rightarrow> js_value \<Rightarrow> js_object" where
  "js_set obj key v = obj(key \<mapsto> v)"

subsection \<open>The leveled logger\<close>

text \<open>
  \<^verbatim>\<open>logLevelsEnabled\<close> is a global object of the module; the methods take it as their first
  argument, and \<open>logLevelsEnabled\<close> below is the value the source gives it.
\<close>

record log_levels =
  debug :: bool
  info :: bool
  warn :: bool
  error :: bool
  compactLogs :: bool

definition logLevelsEnabled :: log_levels where
  "logLevelsEnabled =
    \<lparr>debug = False, info = True, warn = True, error = True, compactLogs = True\<rparr>"

text \<open>
  A printed line is kept as its level and its message. The message is a template: the
  sequence of its literal parts and interpolated values, which the source concatenates.
  The time stamp, the colour codes and the serialised additional information of a line are
  not part of the model.
\<close>

type_synonym log_line = "string \<times> js_value list"

definition logMessage :: "string \<Rightarrow> js_value list \<Rightarrow> log_line list" where
  "logMessage logLevel message = [(logLevel, message)]"

definition completeLogDebug :: "log_levels \<Rightarrow> js_value list \<Rightarrow> log_line list" where
  "completeLogDebug lv message = (if debug lv then logMessage ''DEBUG'' message else [])"

definition completeLogInfo :: "log_levels \<Rightarrow> js_value list \<Rightarrow> log_line list" where
  "completeLogInfo lv message = (if info lv then logMessage ''INFO'' message else [])"

definition completeLogWarn :: "log_levels \<Rightarrow> js_value list \<Rightarrow> log_line list" where
  "completeLogWarn lv message = (if warn lv then logMessage ''WARN'' message else [])"

definition completeLogError :: "log_levels \<Rightarrow> js_value list \<Rightarrow> log_line list" where
  "completeLogError lv message = (if error lv then logMessage ''ERROR'' message else [])"

subsection \<open>validateNotificationConfig\<close>

definition requiredFields :: "(string \<times> string) list" where
  "requiredFields =
    [(''slackwebhookURL'', ''Slack webhook URL is required for notifications.''),
     (''slackchannel'', ''Slack channel is required for notifications.''),
     (''slackusername'', ''Slack username is required for notifications.'')]"

text \<open>
  \<^verbatim>\<open>requiredFields.forEach(({ field, message }) => { if (!notification[field]) { ...; throw
  new Error(message); } })\<close>: the callback runs on the elements in order, and the exception
  it throws ends the loop and leaves the method.
\<close>

fun forEach_required ::
  "log_levels \<Rightarrow> js_object \<Rightarrow> (string \<times> string) list \<Rightarrow> (js_error + unit) \<times> log_line list"
where
  "forEach_required lv notification [] = (Inr (), [])"
| "forEach_required lv notification ((field, message) # rest) =
    (if \<not> truthy (js_get notification field)
     then (Inl (Error message),
           completeLogError lv [JStr ''Missing required field in Slack notification configuration''])
     else forEach_required lv notification rest)"

text \<open>The result is the outcome, the notification object after the call, and the lines printed.\<close>

definition validateNotificationConfig ::
  "log_levels \<Rightarrow> js_object \<Rightarrow> (js_error + unit) \<times> js_object \<times> log_line list"
where
  "validateNotificationConfig lv notification =
    (let log0 = completeLogDebug lv [JStr ''Starting validation of Slack notification configuration'']
     in case forEach_required lv notification requiredFields of
          (Inl e, log1) \<Rightarrow> (Inl e, notification, log0 @ log1)
        | (Inr u, log1) \<Rightarrow>
            (let log2 = completeLogDebug lv
                   [JStr ''All required fields are present in Slack notification configuration'']
             in if \<not> truthy (js_get notification ''slackiconemo'')
                then (let notification' = js_set notification ''slackiconemo'' (JStr '':robot_face:'')
                      in (Inr (), notification',
                          log0 @ log1 @ log2 @ completeLogDebug lv [JStr ''Default Slack icon emoji set'']))
                else (Inr (), notification,
                      log0 @ log1 @ log2 @ completeLogDebug lv [JStr ''Custom Slack icon emoji provided''])))"

subsection \<open>getAllInformationFromTimezone\<close>

text \<open>
  The object literal \<^verbatim>\<open>timezoneToInfo\<close>, in the order of the source. No key occurs twice
  (\<open>timezoneToInfo_keys_distinct\<close> below), so the first entry of a key is its only one.
\<close>

definition timezoneToInfo :: "(string \<times> js_value) list" where
  "timezoneToInfo =
    [(''Europe/Amsterdam'',
        JArray [JStr ''Europe'', JStr ''Netherlands'', JStr ''Central European Time'']),
     (''Europe/Andorra'',
        JArray [JStr ''Europe'', JStr ''Andorra'', JStr ''Central European Time'']),
     (''Europe/Belgrade'',
        JArray [JStr ''Europe'', JStr ''Serbia'', JStr ''Central European Time'']),
     (''Europe/Berlin'', JArray [JStr ''Europe'', JStr ''Germany'', JStr ''Central European Time'']),
     (''Europe/Brussels'',
        JArray [JStr ''Europe'', JStr ''Belgium'', JStr ''Central European Time'']),
     (''Europe/Bucharest'',
        JArray [JStr ''Europe'', JStr ''Romania'', JStr ''Eastern European Time'']),
     (''Europe/Budapest'',
        JArray [JStr ''Europe'', JStr ''Hungary'', JStr ''Central European Time'']),
     (''Europe/Chisinau'',
        JArray [JStr ''Europe'', JStr ''Moldova'', JStr ''Eastern European Time'']),
     (''Europe/Copenhagen'',
        JArray [JStr ''Europe'', JStr ''Denmark'', JStr ''Central European Time'']),
     (''Europe/Dublin'', JArray [JStr ''Europe'', JStr ''Ireland'', JStr ''Greenwich Mean Time'']),
     (''Europe/Helsinki'',
        JArray [JStr ''Europe'', JStr ''Finland'', JStr ''Eastern European Time'']),
     (''Europe/Istanbul'', JArray [JStr ''Europe'', JStr ''Turkey'', JStr ''Turkey Time'']),
     (''Europe/Kiev'', JArray [JStr ''Europe'', JStr ''Ukraine'', JStr ''Eastern European Time'']),
     (''Europe/Lisbon'',
        JArray [JStr ''Europe'', JStr ''Portugal'', JStr ''Western European Time'']),
     (''Europe/London'',
        JArray [JStr ''Europe'', JStr ''United Kingdom'', JStr ''Greenwich Mean Time'']),
     (''Europe/Luxembourg'',
        JArray [JStr ''Europe'', JStr ''Luxembourg'', JStr ''Central European Time'']),
     (''Europe/Madrid'', JArray [JStr ''Europe'', JStr ''Spain'', JStr ''Central European Time'']),
     (''Europe/Minsk'', JArray [JStr ''Europe'', JStr ''Belarus'', JStr ''Minsk Time'']),
     (''Europe/Monaco'', JArray [JStr ''Europe'', JStr ''Monaco'', JStr ''Central European Time'']),
     (''Europe/Moscow'', JArray [JStr ''Europe'', JStr ''Russia'', JStr ''Moscow Time'']),
     (''Europe/Oslo'', JArray [JStr ''Europe'', JStr ''Norway'', JStr ''Central European Time'']),
     (''Europe/Paris'', JArray [JStr ''Europe'', JStr ''France'', JStr ''Central European Time'']),
     (''Europe/Prague'',
        JArray [JStr ''Europe'', JStr ''Czech Republic'', JStr ''Central European Time'']),
     (''Europe/Riga'', JArray [JStr ''Europe'', JStr ''Latvia'', JStr ''Eastern European Time'']),
     (''Europe/Rome'', JArray [JStr ''Europe'', JStr ''Italy'', JStr ''Central European Time'']),
     (''Europe/Samara'', JArray [JStr ''Europe'', JStr ''Russia'', JStr ''Samara Time'']),
     (''Europe/Sofia'', JArray [JStr ''Europe'', JStr ''Bulgaria'', JStr ''Eastern European Time'']),
     (''Europe/Stockholm'',
        JArray [JStr ''Europe'', JStr ''Sweden'', JStr ''Central European Time'']),
     (''Europe/Tallinn'',
        JArray [JStr ''Europe'', JStr ''Estonia'', JStr ''Eastern European Time'']),
     (''Europe/Tirane'', JArray [JStr ''Europe'', JStr ''Albania'', JStr ''Central European Time'']),
     (''Europe/Vaduz'',
        JArray [JStr ''Europe'', JStr ''Liechtenstein'', JStr ''Central European Time'']),
     (''Europe/Vienna'', JArray [JStr ''Europe'', JStr ''Austria'', JStr ''Central European Time'']),
     (''Europe/Vilnius'',
        JArray [JStr ''Europe'', JStr ''Lithuania'', JStr ''Eastern European Time'']),
     (''Europe/Zurich'',
        JArray [JStr ''Europe'', JStr ''Switzerland'', JStr ''Central European Time'']),
     (''America/Chicago'',
        JArray [JStr ''North America'', JStr ''United States'', JStr ''Central Standard Time'']),
     (''America/Denver'',
        JArray [JStr ''North America'', JStr ''United States'', JStr ''Mountain Standard Time'']),
     (''America/Detroit'',
        JArray [JStr ''North America'', JStr ''United States'', JStr ''Eastern Standard Time'']),
     (''America/Houston'',
        JArray [JStr ''North America'', JStr ''United States'', JStr ''Central Standard Time'']),
     (''America/Indianapolis'',
        JArray [JStr ''North America'', JStr ''United States'', JStr ''Eastern Standard Time'']),
     (''America/Los_Angeles'',
        JArray [JStr ''North America'', JStr ''United States'', JStr ''Pacific Standard Time'']),
     (''America/Mexico_City'',
        JArray [JStr ''North America'', JStr ''Mexico'', JStr ''Central Standard Time'']),
     (''America/New_York'',
        JArray [JStr ''North America'', JStr ''United States'', JStr ''Eastern Standard Time'']),
     (''America/Regina'',
        JArray [JStr ''North America'', JStr ''Canada'', JStr ''Central Standard Time'']),
     (''America/Toronto'',
        JArray [JStr ''North America'', JStr ''Canada'', JStr ''Eastern Standard Time'']),
     (''America/Vancouver'',
        JArray [JStr ''North America'', JStr ''Canada'', JStr ''Pacific Standard Time'']),
     (''America/Winnipeg'',
        JArray [JStr ''North America'', JStr ''Canada'', JStr ''Central Standard Time'']),
     (''America/Argentina/Buenos_Aires'',
        JArray [JStr ''South America'', JStr ''Argentina'', JStr ''Argentina Time'']),
     (''America/Asuncion'',
        JArray [JStr ''South America'', JStr ''Paraguay'', JStr ''Paraguay Time'']),
     (''America/Bahia'', JArray [JStr ''South America'', JStr ''Brazil'', JStr ''Brasilia Time'']),
     (''America/Barbados'',
        JArray [JStr ''South America'', JStr ''Barbados'', JStr ''Atlantic Standard Time'']),
     (''America/Belize'',
        JArray [JStr ''South America'', JStr ''Belize'', JStr ''Central Standard Time'']),
     (''America/Colombia'',
        JArray [JStr ''South America'', JStr ''Colombia'', JStr ''Colombia Time'']),
     (''America/Curacao'',
        JArray [JStr ''South America'', JStr ''Curacao'', JStr ''Atlantic Standard Time'']),
     (''America/Guatemala'',
        JArray [JStr ''South America'', JStr ''Guatemala'', JStr ''Central Standard Time'']),
     (''America/Guayaquil'',
        JArray [JStr ''South America'', JStr ''Ecuador'', JStr ''Ecuador Time'']),
     (''America/Lima'', JArray [JStr ''South America'', JStr ''Peru'', JStr ''Peru Time'']),
     (''America/Panama'',
        JArray [JStr ''South America'', JStr ''Panama'', JStr ''Eastern Standard Time'']),
     (''America/Port_of_Spain'',
        JArray [JStr ''South America'', JStr ''Trinidad and Tobago'',
                JStr ''Atlantic Standard Time'']),
     (''America/Santiago'',
        JArray [JStr ''South America'', JStr ''Chile'', JStr ''Chile Standard Time'']),
     (''America/Sao_Paulo'',
        JArray [JStr ''South America'', JStr ''Brazil'', JStr ''Brasilia Time'']),
     (''Asia/Amman'', JArray [JStr ''Asia'', JStr ''Jordan'', JStr ''Jordan Time'']),
     (''Asia/Baghdad'', JArray [JStr ''Asia'', JStr ''Iraq'', JStr ''Arabian Standard Time'']),
     (''Asia/Bahrain'', JArray [JStr ''Asia'', JStr ''Bahrain'', JStr ''Arabian Standard Time'']),
     (''Asia/Bangkok'', JArray [JStr ''Asia'', JStr ''Thailand'', JStr ''Indochina Time'']),
     (''Asia/Beirut'', JArray [JStr ''Asia'', JStr ''Lebanon'', JStr ''Eastern European Time'']),
     (''Asia/Dhaka'',
        JArray [JStr ''Asia'', JStr ''Bangladesh'', JStr ''Bangladesh Standard Time'']),
     (''Asia/Dubai'', JArray [JStr ''Asia'', JStr ''UAE'', JStr ''Gulf Standard Time'']),
     (''Asia/Hong_Kong'', JArray [JStr ''Asia'', JStr ''Hong Kong'', JStr ''Hong Kong Time'']),
     (''Asia/Irkutsk'', JArray [JStr ''Asia'', JStr ''Russia'', JStr ''Irkutsk Time'']),
     (''Asia/Jakarta'', JArray [JStr ''Asia'', JStr ''Indonesia'', JStr ''Western Indonesia Time'']),
     (''Asia/Kolkata'', JArray [JStr ''Asia'', JStr ''India'', JStr ''Indian Standard Time'']),
     (''Asia/Kuala_Lumpur'', JArray [JStr ''Asia'', JStr ''Malaysia'', JStr ''Malaysia Time'']),
     (''Asia/Kuwait'', JArray [JStr ''Asia'', JStr ''Kuwait'', JStr ''Arabian Standard Time'']),
     (''Asia/Makassar'',
        JArray [JStr ''Asia'', JStr ''Indonesia'', JStr ''Central Indonesia Time'']),
     (''Asia/Manila'', JArray [JStr ''Asia'', JStr ''Philippines'', JStr ''Philippine Time'']),
     (''Asia/Muscat'', JArray [JStr ''Asia'', JStr ''Oman'', JStr ''Gulf Standard Time'']),
     (''Asia/Novosibirsk'', JArray [JStr ''Asia'', JStr ''Russia'', JStr ''Novosibirsk Time'']),
     (''Asia/Seoul'', JArray [JStr ''Asia'', JStr ''South Korea'', JStr ''Korea Standard Time'']),
     (''Asia/Singapore'', JArray [JStr ''Asia'', JStr ''Singapore'', JStr ''Singapore Time'']),
     (''Asia/Taipei'', JArray [JStr ''Asia'', JStr ''Taiwan'', JStr ''Taipei Standard Time'']),
     (''Asia/Tashkent'', JArray [JStr ''Asia'', JStr ''Uzbekistan'', JStr ''Uzbekistan Time'']),
     (''Asia/Tokyo'', JArray [JStr ''Asia'', JStr ''Japan'', JStr ''Japan Standard Time'']),
     (''Asia/Ulaanbaatar'', JArray [JStr ''Asia'', JStr ''Mongolia'', JStr ''Ulaanbaatar Time'']),
     (''Asia/Yangon'', JArray [JStr ''Asia'', JStr ''Myanmar'', JStr ''Myanmar Time'']),
     (''Australia/Adelaide'',
        JArray [JStr ''Australia'', JStr ''Australia'', JStr ''Australian Central Standard Time'']),
     (''Australia/Brisbane'',
        JArray [JStr ''Australia'', JStr ''Australia'', JStr ''Australian Eastern Standard Time'']),
     (''Australia/Darwin'',
        JArray [JStr ''Australia'', JStr ''Australia'', JStr ''Australian Central Standard Time'']),
     (''Australia/Hobart'',
        JArray [JStr ''Australia'', JStr ''Australia'', JStr ''Australian Eastern Daylight Time'']),
     (''Australia/Melbourne'',
        JArray [JStr ''Australia'', JStr ''Australia'', JStr ''Australian Eastern Daylight Time'']),
     (''Australia/Sydney'',
        JArray [JStr ''Australia'', JStr ''Australia'', JStr ''Australian Eastern Daylight Time'']),
     (''Africa/Addis_Ababa'',
        JArray [JStr ''Africa'', JStr ''Ethiopia'', JStr ''East Africa Time'']),
     (''Africa/Cairo'', JArray [JStr ''Africa'', JStr ''Egypt'', JStr ''Eastern European Time'']),
     (''Africa/Casablanca'',
        JArray [JStr ''Africa'', JStr ''Morocco'', JStr ''Western European Time'']),
     (''Africa/Harare'', JArray [JStr ''Africa'', JStr ''Zimbabwe'', JStr ''Central Africa Time'']),
     (''Africa/Johannesburg'',
        JArray [JStr ''Africa'', JStr ''South Africa'', JStr ''South Africa Standard Time'']),
     (''Africa/Khartoum'', JArray [JStr ''Africa'', JStr ''Sudan'', JStr ''Central Africa Time'']),
     (''Africa/Lagos'', JArray [JStr ''Africa'', JStr ''Nigeria'', JStr ''West Africa Time'']),
     (''Africa/Nairobi'', JArray [JStr ''Africa'', JStr ''Kenya'', JStr ''East Africa Time'']),
     (''Africa/Tripoli'', JArray [JStr ''Africa'', JStr ''Libya'', JStr ''Eastern European Time'']),
     (''Asia/Tehran'', JArray [JStr ''Asia'', JStr ''Iran'', JStr ''Iran Standard Time'']),
     (''Asia/Qatar'', JArray [JStr ''Asia'', JStr ''Qatar'', JStr ''Arabian Standard Time'']),
     (''Asia/Jerusalem'', JArray [JStr ''Asia'', JStr ''Israel'', JStr ''Israel Standard Time'']),
     (''Asia/Riyadh'',
        JArray [JStr ''Asia'', JStr ''Saudi Arabia'', JStr ''Arabian Standard Time'']),
     (''Pacific/Auckland'',
        JArray [JStr ''Pacific'', JStr ''New Zealand'', JStr ''New Zealand Standard Time'']),
     (''Pacific/Fiji'', JArray [JStr ''Pacific'', JStr ''Fiji'', JStr ''Fiji Time'']),
     (''Pacific/Guam'', JArray [JStr ''Pacific'', JStr ''Guam'', JStr ''Chamorro Standard Time'']),
     (''Pacific/Honolulu'',
        JArray [JStr ''Pacific'', JStr ''Hawaii'', JStr ''Hawaii-Aleutian Standard Time'']),
     (''Pacific/Pago_Pago'',
        JArray [JStr ''Pacific'', JStr ''American Samoa'', JStr ''Samoa Standard Time'']),
     (''Pacific/Port_Moresby'',
        JArray [JStr ''Pacific'', JStr ''Papua New Guinea'', JStr ''Papua New Guinea Time'']),
     (''Pacific/Suva'', JArray [JStr ''Pacific'', JStr ''Fiji'', JStr ''Fiji Time'']),
     (''Pacific/Tarawa'',
        JArray [JStr ''Pacific'', JStr ''Kiribati'', JStr ''Gilbert Island Time'']),
     (''Pacific/Wellington'',
        JArray [JStr ''Pacific'', JStr ''New Zealand'', JStr ''New Zealand Standard Time'']),
     (''Antarctica/Palmer'',
        JArray [JStr ''Other'', JStr ''Antarctica'', JStr ''Chile Summer Time'']),
     (''Antarctica/Vostok'', JArray [JStr ''Other'', JStr ''Antarctica'', JStr ''Vostok Time'']),
     (''Indian/Chagos'',
        JArray [JStr ''Other'', JStr ''British Indian Ocean Territory'',
                JStr ''Indian Ocean Territory Time'']),
     (''Indian/Mauritius'', JArray [JStr ''Other'', JStr ''Mauritius'', JStr ''Mauritius Time'']),
     (''Indian/Reunion'',
        JArray [JStr ''Other'', JStr (''R'' @ [CHR 0xC3] @ [CHR 0xA9] @ ''union''),
                JStr (''R'' @ [CHR 0xC3] @ [CHR 0xA9] @ ''union Time'')]),
     (''Indian/Christmas'',
        JArray [JStr ''Other'', JStr ''Australia'', JStr ''Australia Western Standard Time'']),
     (''Indian/Kerguelen'',
        JArray [JStr ''Other'', JStr ''France'', JStr ''French Southern and Antarctic Time'']),
     (''Indian/Maldives'', JArray [JStr ''Other'', JStr ''Maldives'', JStr ''Maldives Time'']),
     (''Indian/Seychelles'', JArray [JStr ''Other'', JStr ''Seychelles'', JStr ''Seychelles Time''])]"

text \<open>\<^verbatim>\<open>v ?? d\<close>: the default replaces \<^verbatim>\<open>undefined\<close> and \<^verbatim>\<open>null\<close> only.\<close>

definition nullish_coalesce :: "js_value \<Rightarrow> js_value \<Rightarrow> js_value" where
  "nullish_coalesce v d = (if v = JUndefined \<or> v = JNull then d else v)"

text \<open>
  The elements an array destructuring \<^verbatim>\<open>const [ a, b, c ] = v\<close> iterates over. An array gives
  its elements; a string gives its characters (one per byte here, which is exact on ASCII;
  no property read below is a string); any other value has no iterator, and the
  destructuring throws a \<^verbatim>\<open>TypeError\<close>.
\<close>

fun iterate :: "js_value \<Rightarrow> js_error + js_value list" where
  "iterate (JArray xs) = Inr xs"
| "iterate (JStr s) = Inr (map (\<lambda>c. JStr [c]) s)"
| "iterate v = Inl TypeError"

text \<open>
  The binding \<^verbatim>\<open>x = null\<close> at position \<open>i\<close> of the pattern: the element, or the default
  \<^verbatim>\<open>null\<close> where the iteration has ended or the element is \<^verbatim>\<open>undefined\<close>.
\<close>

definition element_or_null :: "js_value list \<Rightarrow> nat \<Rightarrow> js_value" where
  "element_or_null xs i = (if i < length xs \<and> xs ! i \<noteq> JUndefined then xs ! i else JNull)"

record timezone_info =
  continent :: js_value
  country :: js_value
  localTimezone :: js_value

definition getAllInformationFromTimezone ::
  "log_levels \<Rightarrow> string \<Rightarrow> (js_error + timezone_info) \<times> log_line list"
where
  "getAllInformationFromTimezone lv timezone =
    (case iterate (nullish_coalesce (js_get (map_of timezoneToInfo) timezone) (JArray [])) of
       Inl e \<Rightarrow> (Inl e, [])
     | Inr xs \<Rightarrow>
         (let continent = element_or_null xs 0;
              country = element_or_null xs 1;
              localTimezone = element_or_null xs 2;
              log1 = (if debug lv
                      then completeLogDebug lv
                             [JStr ''Timezone: '', JStr timezone, JStr '', Continent: '', continent,
                              JStr '', Country: '', country, JStr '', Local Timezone: '', localTimezone]
                      else []);
              log2 = (if continent = JStr ''Unknown'' \<and> warn lv
                      then completeLogWarn lv [JStr ''Timezone not found in mappings: '', JStr timezone]
                      else [])
          in (Inr \<lparr>continent = continent, country = country, localTimezone = localTimezone\<rparr>,
              log1 @ log2)))"

text \<open>
  The shape of an entry of \<open>timezoneToInfo\<close>: an array of exactly three strings, the first
  of which is not the word the warning branch of the method compares with.
\<close>

fun info_triple :: "js_value \<Rightarrow> bool" where
  "info_triple (JArray [JStr a, JStr b, JStr c]) = (a \<noteq> ''Unknown'')"
| "info_triple v = False"

subsection \<open>formatDay, formatDate, formatTime\<close>

text \<open>
  The formatters hand the conversion to the dayjs library, which is not part of this
  module. What they return is therefore either \<^verbatim>\<open>null\<close> or the value of a library
  expression, kept as such: \<open>Dayjs_value DayjsLocal u tz p\<close> stands for
  \<^verbatim>\<open>dayjs(u).tz(tz).format(p)\<close> and \<open>Dayjs_value DayjsUtc u tz p\<close> for
  \<^verbatim>\<open>dayjs.utc(u).tz(tz).format(p)\<close>.
\<close>

datatype dayjs_parse = DayjsLocal | DayjsUtc

datatype format_result = Null_value | Dayjs_value dayjs_parse js_value js_value string

definition formatDay :: "log_levels \<Rightarrow> js_value \<Rightarrow> js_value \<Rightarrow> format_result \<times> log_line list" where
  "formatDay lv utcTime timezone =
    (if \<not> truthy utcTime \<or> \<not> truthy timezone
     then (Null_value,
           if error lv
           then completeLogDebug lv [JStr ''Invalid input: Both utcTime and timezone are required.'']
           else [])
     else (Dayjs_value DayjsLocal utcTime timezone ''dddd'', []))"

definition formatDate :: "log_levels \<Rightarrow> js_value \<Rightarrow> js_value \<Rightarrow> format_result \<times> log_line list" where
  "formatDate lv utcTime timezone =
    (if \<not> truthy utcTime \<or> \<not> truthy timezone
     then (Null_value,
           if error lv
           then completeLogDebug lv [JStr ''Invalid input: Both utcTime and timezone are required.'']
           else [])
     else (Dayjs_value DayjsUtc utcTime timezone ''MMM DD, YYYY'', []))"

definition formatTime :: "log_levels \<Rightarrow> js_value \<Rightarrow> js_value \<Rightarrow> format_result \<times> log_line list" where
  "formatTime lv utcTime timezone =
    (if \<not> truthy utcTime \<or> \<not> truthy timezone
     then (Null_value,
           if error lv
           then completeLogDebug lv [JStr ''Invalid input: Both utcTime and timezone are required.'']
           else [])
     else (Dayjs_value DayjsLocal utcTime timezone ''HH:mm:ss'', []))"

section \<open>Properties\<close>

subsection \<open>Validation\<close>

text \<open>The loop over the required fields throws the message of the first falsy field, if any.\<close>

lemma forEach_required_outcome:
  "fst (forEach_required lv n fs) =
     (case find (\<lambda>(field, message). \<not> truthy (js_get n field)) fs of
        None \<Rightarrow> Inr ()
      | Some (field, message) \<Rightarrow> Inl (Error message))"
  by (induction fs) (auto split: prod.splits)

lemma forEach_required_log:
  "snd (forEach_required lv n fs) =
     (if fst (forEach_required lv n fs) = Inr () then []
      else completeLogError lv [JStr ''Missing required field in Slack notification configuration''])"
  by (induction fs) (auto split: prod.splits)

lemma validate_outcome:
  "fst (validateNotificationConfig lv n) = fst (forEach_required lv n requiredFields)"
  by (cases "forEach_required lv n requiredFields")
     (auto simp: validateNotificationConfig_def Let_def split: sum.splits)

lemma validate_throws:
  assumes "fst (forEach_required lv n requiredFields) = Inl e"
  shows "validateNotificationConfig lv n =
           (Inl e, n,
            completeLogDebug lv [JStr ''Starting validation of Slack notification configuration''] @
            snd (forEach_required lv n requiredFields))"
  using assms
  by (cases "forEach_required lv n requiredFields")
     (auto simp: validateNotificationConfig_def Let_def split: sum.splits)

lemma validate_passes:
  assumes "fst (forEach_required lv n requiredFields) = Inr ()"
  shows "fst (snd (validateNotificationConfig lv n)) =
           (if \<not> truthy (js_get n ''slackiconemo'')
            then js_set n ''slackiconemo'' (JStr '':robot_face:'') else n)"
  using assms
  by (cases "forEach_required lv n requiredFields")
     (auto simp: validateNotificationConfig_def Let_def split: sum.splits)

lemma absent_icon_undefined:
  "n ''slackiconemo'' = None \<Longrightarrow> js_get n ''slackiconemo'' = JUndefined"
  by (simp add: js_get_def object_prototype_def)

text \<open>
  Claim C1. Whenever one of the three required fields (\<^verbatim>\<open>slackwebhookURL\<close>, \<^verbatim>\<open>slackchannel\<close>,
  \<^verbatim>\<open>slackusername\<close>) is missing or falsy, \<open>validateNotificationConfig\<close> throws an \<^verbatim>\<open>Error\<close>
  whose message names the first such field in that order: the webhook URL if it is falsy;
  the channel if the webhook URL is there and the channel is falsy; the username if both
  are there and the username is falsy.
\<close>

theorem validate_first_missing_field:
  "(\<not> truthy (js_get n ''slackwebhookURL'') \<longrightarrow>
      fst (validateNotificationConfig lv n) =
        Inl (Error ''Slack webhook URL is required for notifications.'')) \<and>
   (truthy (js_get n ''slackwebhookURL'') \<and> \<not> truthy (js_get n ''slackchannel'') \<longrightarrow>
      fst (validateNotificationConfig lv n) =
        Inl (Error ''Slack channel is required for notifications.'')) \<and>
   (truthy (js_get n ''slackwebhookURL'') \<and> truthy (js_get n ''slackchannel'') \<and>
    \<not> truthy (js_get n ''slackusername'') \<longrightarrow>
      fst (validateNotificationConfig lv n) =
        Inl (Error ''Slack username is required for notifications.''))"
  by (simp add: validate_outcome forEach_required_outcome requiredFields_def)

theorem validate_first_missing_field_witness:
  "(\<not> truthy (js_get Map.empty ''slackwebhookURL'') \<and>
    fst (validateNotificationConfig logLevelsEnabled Map.empty) =
      Inl (Error ''Slack webhook URL is required for notifications.'')) \<and>
   ((truthy (js_get [''slackwebhookURL'' \<mapsto> JStr ''https://hooks.example/T0'',
                     ''slackchannel'' \<mapsto> JStr ''''] ''slackwebhookURL'') \<and>
     \<not> truthy (js_get [''slackwebhookURL'' \<mapsto> JStr ''https://hooks.example/T0'',
                       ''slackchannel'' \<mapsto> JStr ''''] ''slackchannel'')) \<and>
    fst (validateNotificationConfig logLevelsEnabled
          [''slackwebhookURL'' \<mapsto> JStr ''https://hooks.example/T0'',
           ''slackchannel'' \<mapsto> JStr '''']) =
      Inl (Error ''Slack channel is required for notifications.'')) \<and>
   ((truthy (js_get [''slackwebhookURL'' \<mapsto> JStr ''https://hooks.example/T0'',
                     ''slackchannel'' \<mapsto> JStr ''#ops''] ''slackwebhookURL'') \<and>
     truthy (js_get [''slackwebhookURL'' \<mapsto> JStr ''https://hooks.example/T0'',
                     ''slackchannel'' \<mapsto> JStr ''#ops''] ''slackchannel'') \<and>
     \<not> truthy (js_get [''slackwebhookURL'' \<mapsto> JStr ''https://hooks.example/T0'',
                       ''slackchannel'' \<mapsto> JStr ''#ops''] ''slackusername'')) \<and>
    fst (validateNotificationConfig logLevelsEnabled
          [''slackwebhookURL'' \<mapsto> JStr ''https://hooks.example/T0'',
           ''slackchannel'' \<mapsto> JStr ''#ops'']) =
      Inl (Error ''Slack username is required for notifications.''))"
  using validate_first_missing_field [of Map.empty logLevelsEnabled]
        validate_first_missing_field
          [of "[''slackwebhookURL'' \<mapsto> JStr ''https://hooks.example/T0'',
                ''slackchannel'' \<mapsto> JStr '''']" logLevelsEnabled]
        validate_first_missing_field
          [of "[''slackwebhookURL'' \<mapsto> JStr ''https://hooks.example/T0'',
                ''slackchannel'' \<mapsto> JStr ''#ops'']" logLevelsEnabled]
  by (simp add: js_get_def object_prototype_def)

text \<open>
  Claim C4. For a configuration that passes validation: if no icon is there, that is, the
  key \<^verbatim>\<open>slackiconemo\<close> is absent or its value is falsy (the test of the source is
  \<^verbatim>\<open>!notification.slackiconemo\<close>, so an empty string counts as no icon, as it does for the
  required fields), the object afterwards is the one before with \<^verbatim>\<open>slackiconemo\<close> set to
  \<^verbatim>\<open>":robot_face:"\<close>; if an icon is there, the object afterwards is the one before.
\<close>

theorem validate_icon_default:
  assumes "fst (validateNotificationConfig lv n) = Inr ()"
  shows "(n ''slackiconemo'' = None \<or> \<not> truthy (js_get n ''slackiconemo'') \<longrightarrow>
            fst (snd (validateNotificationConfig lv n)) =
              n(''slackiconemo'' \<mapsto> JStr '':robot_face:'')) \<and>
         (truthy (js_get n ''slackiconemo'') \<longrightarrow>
            fst (snd (validateNotificationConfig lv n)) = n)"
proof -
  from assms have ok: "fst (forEach_required lv n requiredFields) = Inr ()"
    by (simp add: validate_outcome)
  show ?thesis
    using validate_passes [OF ok] absent_icon_undefined [of n]
    by (auto simp: js_set_def)
qed

theorem validate_icon_default_witness:
  "(fst (validateNotificationConfig logLevelsEnabled
          [''slackwebhookURL'' \<mapsto> JStr ''https://hooks.example/T0'',
           ''slackchannel'' \<mapsto> JStr ''#ops'', ''slackusername'' \<mapsto> JStr ''kuma'']) = Inr () \<and>
    [''slackwebhookURL'' \<mapsto> JStr ''https://hooks.example/T0'',
     ''slackchannel'' \<mapsto> JStr ''#ops'', ''slackusername'' \<mapsto> JStr ''kuma''] ''slackiconemo'' = None \<and>
    fst (snd (validateNotificationConfig logLevelsEnabled
          [''slackwebhookURL'' \<mapsto> JStr ''https://hooks.example/T0'',
           ''slackchannel'' \<mapsto> JStr ''#ops'', ''slackusername'' \<mapsto> JStr ''kuma''])) =
      [''slackwebhookURL'' \<mapsto> JStr ''https://hooks.example/T0'',
       ''slackchannel'' \<mapsto> JStr ''#ops'', ''slackusername'' \<mapsto> JStr ''kuma'',
       ''slackiconemo'' \<mapsto> JStr '':robot_face:'']) \<and>
   (fst (validateNotificationConfig logLevelsEnabled
          [''slackwebhookURL'' \<mapsto> JStr ''https://hooks.example/T0'',
           ''slackchannel'' \<mapsto> JStr ''#ops'', ''slackusername'' \<mapsto> JStr ''kuma'',
           ''slackiconemo'' \<mapsto> JStr '':bell:'']) = Inr () \<and>
    truthy (js_get [''slackwebhookURL'' \<mapsto> JStr ''https://hooks.example/T0'',
           ''slackchannel'' \<mapsto> JStr ''#ops'', ''slackusername'' \<mapsto> JStr ''kuma'',
           ''slackiconemo'' \<mapsto> JStr '':bell:''] ''slackiconemo'') \<and>
    fst (snd (validateNotificationConfig logLevelsEnabled
          [''slackwebhookURL'' \<mapsto> JStr ''https://hooks.example/T0'',
           ''slackchannel'' \<mapsto> JStr ''#ops'', ''slackusername'' \<mapsto> JStr ''kuma'',
           ''slackiconemo'' \<mapsto> JStr '':bell:''])) =
      [''slackwebhookURL'' \<mapsto> JStr ''https://hooks.example/T0'',
       ''slackchannel'' \<mapsto> JStr ''#ops'', ''slackusername'' \<mapsto> JStr ''kuma'',
       ''slackiconemo'' \<mapsto> JStr '':bell:''])"
proof -
  have ok1: "fst (validateNotificationConfig logLevelsEnabled
          [''slackwebhookURL'' \<mapsto> JStr ''https://hooks.example/T0'',
           ''slackchannel'' \<mapsto> JStr ''#ops'', ''slackusername'' \<mapsto> JStr ''kuma'']) = Inr ()"
    by (simp add: validate_outcome forEach_required_outcome requiredFields_def js_get_def)
  have ok2: "fst (validateNotificationConfig logLevelsEnabled
          [''slackwebhookURL'' \<mapsto> JStr ''https://hooks.example/T0'',
           ''slackchannel'' \<mapsto> JStr ''#ops'', ''slackusername'' \<mapsto> JStr ''kuma'',
           ''slackiconemo'' \<mapsto> JStr '':bell:'']) = Inr ()"
    by (simp add: validate_outcome forEach_required_outcome requiredFields_def js_get_def)
  show ?thesis
    using ok1 ok2 validate_icon_default [OF ok1] validate_icon_default [OF ok2]
    by (simp add: js_get_def)
qed

text \<open>
  Claim C8. \<open>validateNotificationConfig\<close> changes no property of the notification object
  other than \<^verbatim>\<open>slackiconemo\<close>: under every other key the object holds after the call what
  it held before, whether the call returns or throws.
\<close>

theorem validate_frame:
  assumes "key \<noteq> ''slackiconemo''"
  shows "fst (snd (validateNotificationConfig lv n)) key = n key"
proof (cases "fst (forEach_required lv n requiredFields)")
  case (Inl e)
  from validate_throws [OF Inl] show ?thesis by simp
next
  case (Inr u)
  then have "fst (forEach_required lv n requiredFields) = Inr ()" by simp
  from validate_passes [OF this] assms show ?thesis by (simp add: js_set_def)
qed

theorem validate_frame_witness:
  "''slackchannel'' \<noteq> ''slackiconemo'' \<and>
   fst (snd (validateNotificationConfig logLevelsEnabled
          [''slackwebhookURL'' \<mapsto> JStr ''https://hooks.example/T0'',
           ''slackchannel'' \<mapsto> JStr ''#ops'', ''slackusername'' \<mapsto> JStr ''kuma'']))
     ''slackchannel'' = Some (JStr ''#ops'')"
proof -
  have neq: "''slackchannel'' \<noteq> ''slackiconemo''" by simp
  show ?thesis
    using neq validate_frame [OF neq, of logLevelsEnabled
          "[''slackwebhookURL'' \<mapsto> JStr ''https://hooks.example/T0'',
            ''slackchannel'' \<mapsto> JStr ''#ops'', ''slackusername'' \<mapsto> JStr ''kuma'']"]
    by simp
qed

text \<open>
  Claim C9. Validation is atomic on failure: for a configuration in which a required field
  is missing or falsy, \<open>validateNotificationConfig\<close> throws and the notification object is
  exactly what it was; in particular no default icon has been written, since the checks of
  the required fields all run before the icon is looked at.
\<close>

theorem validate_failure_atomic:
  assumes "\<not> truthy (js_get n ''slackwebhookURL'') \<or> \<not> truthy (js_get n ''slackchannel'') \<or>
           \<not> truthy (js_get n ''slackusername'')"
  shows "(\<exists>message. fst (validateNotificationConfig lv n) = Inl (Error message)) \<and>
         fst (snd (validateNotificationConfig lv n)) = n"
proof -
  have "\<exists>message. fst (forEach_required lv n requiredFields) = Inl (Error message)"
    using assms unfolding forEach_required_outcome by (auto simp: requiredFields_def)
  then obtain message where
    thrown: "fst (forEach_required lv n requiredFields) = Inl (Error message)" ..
  from validate_throws [OF thrown] show ?thesis by auto
qed

theorem validate_failure_atomic_witness:
  "\<not> truthy (js_get [''slackwebhookURL'' \<mapsto> JStr ''https://hooks.example/T0'',
                      ''slackusername'' \<mapsto> JStr ''kuma''] ''slackchannel'') \<and>
   fst (validateNotificationConfig logLevelsEnabled
          [''slackwebhookURL'' \<mapsto> JStr ''https://hooks.example/T0'',
           ''slackusername'' \<mapsto> JStr ''kuma'']) =
     Inl (Error ''Slack channel is required for notifications.'') \<and>
   fst (snd (validateNotificationConfig logLevelsEnabled
          [''slackwebhookURL'' \<mapsto> JStr ''https://hooks.example/T0'',
           ''slackusername'' \<mapsto> JStr ''kuma''])) =
     [''slackwebhookURL'' \<mapsto> JStr ''https://hooks.example/T0'',
      ''slackusername'' \<mapsto> JStr ''kuma''] \<and>
   fst (snd (validateNotificationConfig logLevelsEnabled
          [''slackwebhookURL'' \<mapsto> JStr ''https://hooks.example/T0'',
           ''slackusername'' \<mapsto> JStr ''kuma''])) ''slackiconemo'' = None"
proof -
  have channel:
    "\<not> truthy (js_get [''slackwebhookURL'' \<mapsto> JStr ''https://hooks.example/T0'',
                       ''slackusername'' \<mapsto> JStr ''kuma''] ''slackchannel'')"
    by (simp add: js_get_def object_prototype_def)
  then have missing:
    "\<not> truthy (js_get [''slackwebhookURL'' \<mapsto> JStr ''https://hooks.example/T0'',
                       ''slackusername'' \<mapsto> JStr ''kuma''] ''slackwebhookURL'') \<or>
     \<not> truthy (js_get [''slackwebhookURL'' \<mapsto> JStr ''https://hooks.example/T0'',
                       ''slackusername'' \<mapsto> JStr ''kuma''] ''slackchannel'') \<or>
     \<not> truthy (js_get [''slackwebhookURL'' \<mapsto> JStr ''https://hooks.example/T0'',
                       ''slackusername'' \<mapsto> JStr ''kuma''] ''slackusername'')"
    by blast
  have thrown: "fst (validateNotificationConfig logLevelsEnabled
          [''slackwebhookURL'' \<mapsto> JStr ''https://hooks.example/T0'',
           ''slackusername'' \<mapsto> JStr ''kuma'']) =
     Inl (Error ''Slack channel is required for notifications.'')"
    by (simp add: validate_outcome forEach_required_outcome requiredFields_def js_get_def
        object_prototype_def)
  show ?thesis
    using channel thrown validate_failure_atomic [OF missing, of logLevelsEnabled]
    by simp
qed

subsection \<open>The lookup table\<close>

lemma timezoneToInfo_keys_distinct: "distinct (map fst timezoneToInfo)"
  by code_simp

lemma timezoneToInfo_triples: "list_all (\<lambda>kv. info_triple (snd kv)) timezoneToInfo"
  by code_simp

text \<open>No property name of \<^verbatim>\<open>Object.prototype\<close> is a key of the table.\<close>

lemma prototype_names_unmapped:
  "list_all (\<lambda>kv. fst kv \<notin> set (map fst timezoneToInfo)) object_prototype"
  by code_simp

lemma info_tripleE:
  assumes "info_triple v"
  obtains a b c where "v = JArray [JStr a, JStr b, JStr c]" "a \<noteq> ''Unknown''"
  using assms by (induction v rule: info_triple.induct) auto

lemma mapped_triple:
  assumes "map_of timezoneToInfo tz = Some v"
  shows "info_triple v"
proof -
  from assms have "(tz, v) \<in> set timezoneToInfo" by (rule map_of_SomeD)
  with timezoneToInfo_triples show ?thesis by (auto simp: list_all_iff)
qed

lemma prototype_builtin:
  assumes "map_of object_prototype k = Some v"
  shows "\<exists>name. v = JBuiltin name"
  using assms by (auto simp: object_prototype_def split: if_splits)

lemma inherited_unmapped:
  assumes "map_of object_prototype k = Some v"
  shows "map_of timezoneToInfo k = None"
proof -
  from assms have mem: "(k, v) \<in> set object_prototype" by (rule map_of_SomeD)
  have "\<forall>kv\<in>set object_prototype. fst kv \<notin> set (map fst timezoneToInfo)"
    using prototype_names_unmapped by (simp only: list_all_iff)
  then have "fst (k, v) \<notin> set (map fst timezoneToInfo)" using mem by (rule bspec)
  then show ?thesis by (simp add: map_of_eq_None_iff)
qed

subsection \<open>Timezone resolution\<close>

text \<open>
  The three ways a call of \<open>getAllInformationFromTimezone\<close> can go: the identifier is a key
  of the table; it is not, but \<^verbatim>\<open>Object.prototype\<close> has a property of that name; neither.
\<close>

lemma getAll_mapped:
  assumes "map_of timezoneToInfo tz = Some v"
  shows "\<exists>a b c. v = JArray [JStr a, JStr b, JStr c] \<and> a \<noteq> ''Unknown'' \<and>
           getAllInformationFromTimezone lv tz =
             (Inr \<lparr>continent = JStr a, country = JStr b, localTimezone = JStr c\<rparr>,
              if debug lv
              then [(''DEBUG'', [JStr ''Timezone: '', JStr tz, JStr '', Continent: '', JStr a,
                      JStr '', Country: '', JStr b, JStr '', Local Timezone: '', JStr c])]
              else [])"
proof -
  from assms have "info_triple v" by (rule mapped_triple)
  then obtain a b c where v: "v = JArray [JStr a, JStr b, JStr c]" and a: "a \<noteq> ''Unknown''"
    by (rule info_tripleE)
  have "getAllInformationFromTimezone lv tz =
             (Inr \<lparr>continent = JStr a, country = JStr b, localTimezone = JStr c\<rparr>,
              if debug lv
              then [(''DEBUG'', [JStr ''Timezone: '', JStr tz, JStr '', Continent: '', JStr a,
                      JStr '', Country: '', JStr b, JStr '', Local Timezone: '', JStr c])]
              else [])"
    using assms a
    by (simp add: getAllInformationFromTimezone_def js_get_def nullish_coalesce_def
        element_or_null_def completeLogDebug_def logMessage_def v Let_def)
  with v a show ?thesis by blast
qed

lemma getAll_inherited:
  assumes "map_of timezoneToInfo tz = None" and "map_of object_prototype tz = Some v"
  shows "getAllInformationFromTimezone lv tz = (Inl TypeError, [])"
proof -
  from assms(2) obtain name where "v = JBuiltin name" using prototype_builtin by blast
  with assms show ?thesis
    by (simp add: getAllInformationFromTimezone_def js_get_def nullish_coalesce_def)
qed

lemma getAll_absent:
  assumes "map_of timezoneToInfo tz = None" and "map_of object_prototype tz = None"
  shows "getAllInformationFromTimezone lv tz =
           (Inr \<lparr>continent = JNull, country = JNull, localTimezone = JNull\<rparr>,
            if debug lv
            then [(''DEBUG'', [JStr ''Timezone: '', JStr tz, JStr '', Continent: '', JNull,
                    JStr '', Country: '', JNull, JStr '', Local Timezone: '', JNull])]
            else [])"
  using assms
  by (simp add: getAllInformationFromTimezone_def js_get_def nullish_coalesce_def
      element_or_null_def completeLogDebug_def logMessage_def Let_def)

text \<open>
  Whenever the method returns, its record is all strings (for a key of the table) or all
  \<^verbatim>\<open>null\<close> (otherwise); it throws exactly for the property names of \<^verbatim>\<open>Object.prototype\<close>.
\<close>

lemma getAll_returns_all_or_nothing:
  assumes "fst (getAllInformationFromTimezone lv tz) = Inr r"
  shows "(tz \<in> set (map fst timezoneToInfo) \<and>
            (\<exists>a b c. r = \<lparr>continent = JStr a, country = JStr b, localTimezone = JStr c\<rparr>)) \<or>
         (tz \<notin> set (map fst timezoneToInfo) \<and>
            r = \<lparr>continent = JNull, country = JNull, localTimezone = JNull\<rparr>)"
proof (cases "map_of timezoneToInfo tz")
  case (Some v)
  then have "tz \<in> set (map fst timezoneToInfo)"
    by (metis map_of_eq_None_iff option.distinct(1) set_map)
  with getAll_mapped [OF Some, of lv] assms show ?thesis by auto
next
  case None
  then have unmapped: "tz \<notin> set (map fst timezoneToInfo)" by (simp add: map_of_eq_None_iff)
  show ?thesis
  proof (cases "map_of object_prototype tz")
    case (Some v)
    from getAll_inherited [OF None Some, of lv] assms show ?thesis by simp
  next
    case None': None
    from getAll_absent [OF None None', of lv] assms unmapped show ?thesis by simp
  qed
qed

lemma getAll_throws_iff:
  "fst (getAllInformationFromTimezone lv tz) = Inl TypeError \<longleftrightarrow>
     tz \<in> set (map fst object_prototype)"
proof (cases "map_of object_prototype tz")
  case (Some v)
  then have "tz \<in> set (map fst object_prototype)"
    by (metis map_of_eq_None_iff option.distinct(1) set_map)
  moreover from getAll_inherited [OF inherited_unmapped [OF Some] Some, of lv]
  have "fst (getAllInformationFromTimezone lv tz) = Inl TypeError" by simp
  ultimately show ?thesis by simp
next
  case None
  then have no: "tz \<notin> set (map fst object_prototype)" by (simp add: map_of_eq_None_iff)
  show ?thesis
  proof (cases "map_of timezoneToInfo tz")
    case (Some v)
    with getAll_mapped [OF Some, of lv] no show ?thesis by auto
  next
    case None': None
    from getAll_absent [OF None' None, of lv] no show ?thesis by simp
  qed
qed

text \<open>
  Claim C6. \<open>getAllInformationFromTimezone\<close> applied to \<^verbatim>\<open>"Europe/Amsterdam"\<close> returns the
  record with continent \<^verbatim>\<open>"Europe"\<close>, country \<^verbatim>\<open>"Netherlands"\<close> and local timezone
  \<^verbatim>\<open>"Central European Time"\<close>.
\<close>

theorem getAll_Europe_Amsterdam:
  "fst (getAllInformationFromTimezone lv ''Europe/Amsterdam'') =
     Inr \<lparr>continent = JStr ''Europe'', country = JStr ''Netherlands'',
          localTimezone = JStr ''Central European Time''\<rparr>"
  by (simp add: getAllInformationFromTimezone_def timezoneToInfo_def js_get_def
      nullish_coalesce_def element_or_null_def Let_def)

text \<open>
  Claim C2 says that every identifier that is not a key of the table resolves, without an
  exception, to three \<^verbatim>\<open>null\<close> fields. The code does not do that for \<^verbatim>\<open>"constructor"\<close>:
  the string is not a key of \<open>timezoneToInfo\<close>, yet \<^verbatim>\<open>timezoneToInfo["constructor"]\<close> is the
  function \<^verbatim>\<open>Object\<close> inherited from \<^verbatim>\<open>Object.prototype\<close>, the default \<^verbatim>\<open>?? []\<close> is not
  taken, and destructuring a function as an array throws a \<^verbatim>\<open>TypeError\<close>.
\<close>

theorem getAll_constructor_throws:
  "map_of timezoneToInfo ''constructor'' = None \<and>
   getAllInformationFromTimezone logLevelsEnabled ''constructor'' = (Inl TypeError, [])"
proof -
  have inherited: "map_of object_prototype ''constructor'' = Some (JBuiltin ''Object'')"
    by (simp add: object_prototype_def)
  have unmapped: "map_of timezoneToInfo ''constructor'' = None"
    using inherited by (rule inherited_unmapped)
  from unmapped getAll_inherited [OF unmapped inherited] show ?thesis by simp
qed

text \<open>
  Claim C5. The branch of \<open>getAllInformationFromTimezone\<close> that compares the continent with
  \<^verbatim>\<open>"Unknown"\<close> is never taken: for every identifier, the continent of a returned record
  is not \<^verbatim>\<open>"Unknown"\<close> (it is \<^verbatim>\<open>null\<close> or the first component of an entry of the table),
  and no line of level \<^verbatim>\<open>WARN\<close> is printed.
\<close>

theorem unknown_branch_unreachable:
  "(\<forall>r. fst (getAllInformationFromTimezone lv tz) = Inr r \<longrightarrow>
        continent r \<noteq> JStr ''Unknown'' \<and>
        (continent r = JNull \<or>
         (\<exists>k a b c. (k, JArray [JStr a, b, c]) \<in> set timezoneToInfo \<and> continent r = JStr a))) \<and>
   (\<forall>l \<in> set (snd (getAllInformationFromTimezone lv tz)). fst l \<noteq> ''WARN'')"
proof (cases "map_of timezoneToInfo tz")
  case (Some v)
  from getAll_mapped [OF Some, of lv] obtain a b c where
    v: "v = JArray [JStr a, JStr b, JStr c]" and a: "a \<noteq> ''Unknown''" and
    r: "getAllInformationFromTimezone lv tz =
             (Inr \<lparr>continent = JStr a, country = JStr b, localTimezone = JStr c\<rparr>,
              if debug lv
              then [(''DEBUG'', [JStr ''Timezone: '', JStr tz, JStr '', Continent: '', JStr a,
                      JStr '', Country: '', JStr b, JStr '', Local Timezone: '', JStr c])]
              else [])" by blast
  from Some v have "(tz, JArray [JStr a, JStr b, JStr c]) \<in> set timezoneToInfo"
    by (auto dest: map_of_SomeD)
  with a r show ?thesis by auto
next
  case None
  show ?thesis
  proof (cases "map_of object_prototype tz")
    case (Some v)
    from getAll_inherited [OF None Some] show ?thesis by simp
  next
    case None': None
    from getAll_absent [OF None None'] show ?thesis by simp
  qed
qed

theorem unknown_branch_unreachable_witness:
  "fst (getAllInformationFromTimezone (logLevelsEnabled\<lparr>debug := True\<rparr>) ''Europe/Amsterdam'') =
     Inr \<lparr>continent = JStr ''Europe'', country = JStr ''Netherlands'',
          localTimezone = JStr ''Central European Time''\<rparr> \<and>
   continent \<lparr>continent = JStr ''Europe'', country = JStr ''Netherlands'',
          localTimezone = JStr ''Central European Time''\<rparr> \<noteq> JStr ''Unknown'' \<and>
   snd (getAllInformationFromTimezone (logLevelsEnabled\<lparr>debug := True\<rparr>) ''Europe/Amsterdam'') =
     [(''DEBUG'', [JStr ''Timezone: '', JStr ''Europe/Amsterdam'', JStr '', Continent: '',
                   JStr ''Europe'', JStr '', Country: '', JStr ''Netherlands'',
                   JStr '', Local Timezone: '', JStr ''Central European Time''])] \<and>
   ''DEBUG'' \<noteq> ''WARN''"
  using unknown_branch_unreachable [of "logLevelsEnabled\<lparr>debug := True\<rparr>" "''Europe/Amsterdam''"]
  by (simp add: getAllInformationFromTimezone_def timezoneToInfo_def js_get_def
      nullish_coalesce_def element_or_null_def completeLogDebug_def logMessage_def
      logLevelsEnabled_def Let_def)

text \<open>
  Claim C10 says that \<open>getAllInformationFromTimezone\<close> returns a record for every string.
  The code does not for \<^verbatim>\<open>"toString"\<close> (nor for any other property name of
  \<^verbatim>\<open>Object.prototype\<close>, see \<open>getAll_throws_iff\<close>): the lookup finds the inherited function
  and the destructuring of it throws a \<^verbatim>\<open>TypeError\<close>, so there is no result at all. Where
  the method does return, the record is all strings or all \<^verbatim>\<open>null\<close>
  (\<open>getAll_returns_all_or_nothing\<close>).
\<close>

theorem getAll_toString_throws:
  "fst (getAllInformationFromTimezone logLevelsEnabled ''toString'') = Inl TypeError"
proof -
  have inherited:
    "map_of object_prototype ''toString'' = Some (JBuiltin ''Object.prototype.toString'')"
    by (simp add: object_prototype_def)
  from getAll_inherited [OF inherited_unmapped [OF inherited] inherited] show ?thesis by simp
qed

subsection \<open>The formatters\<close>

text \<open>
  With a falsy argument each formatter returns \<^verbatim>\<open>null\<close> and throws nothing. The line it
  prints goes through \<open>completeLogDebug\<close> inside a test of the \<^verbatim>\<open>error\<close> level, so it is
  printed only when both levels are enabled.
\<close>

lemma format_soft_failure:
  assumes "\<not> truthy utcTime \<or> \<not> truthy timezone"
  shows "formatDay lv utcTime timezone =
           (Null_value, if error lv \<and> debug lv
              then [(''DEBUG'', [JStr ''Invalid input: Both utcTime and timezone are required.''])]
              else [])"
    and "formatDate lv utcTime timezone =
           (Null_value, if error lv \<and> debug lv
              then [(''DEBUG'', [JStr ''Invalid input: Both utcTime and timezone are required.''])]
              else [])"
    and "formatTime lv utcTime timezone =
           (Null_value, if error lv \<and> debug lv
              then [(''DEBUG'', [JStr ''Invalid input: Both utcTime and timezone are required.''])]
              else [])"
  using assms
  by (auto simp: formatDay_def formatDate_def formatTime_def completeLogDebug_def logMessage_def)

text \<open>
  Claim C3 says that a formatter given a falsy argument returns \<^verbatim>\<open>null\<close>, without an
  exception, after emitting a diagnostic log. With the \<open>logLevelsEnabled\<close> of the source the
  code returns \<^verbatim>\<open>null\<close> and prints nothing: the \<^verbatim>\<open>error\<close> level is enabled, but the line is
  handed to \<open>completeLogDebug\<close>, and the \<^verbatim>\<open>debug\<close> level is disabled.
\<close>

theorem format_null_input_prints_nothing:
  "error logLevelsEnabled \<and>
   formatDay logLevelsEnabled JNull (JStr ''Europe/Paris'') = (Null_value, []) \<and>
   formatDate logLevelsEnabled JNull (JStr ''Europe/Paris'') = (Null_value, []) \<and>
   formatTime logLevelsEnabled JNull (JStr ''Europe/Paris'') = (Null_value, [])"
  by (simp add: formatDay_def formatDate_def formatTime_def completeLogDebug_def
      logLevelsEnabled_def)

theorem format_null_input_prints_nothing_witness:
  "\<not> truthy JNull \<and> truthy (JStr ''Europe/Paris'') \<and>
   fst (formatDay logLevelsEnabled JNull (JStr ''Europe/Paris'')) = Null_value \<and>
   snd (formatDay logLevelsEnabled JNull (JStr ''Europe/Paris'')) = []"
  using format_null_input_prints_nothing by simp

text \<open>
  With both arguments there, \<open>formatDate\<close> prints nothing and returns what dayjs makes of
  the instant, read as UTC, in the timezone, under the pattern \<^verbatim>\<open>MMM DD, YYYY\<close>.
\<close>

lemma formatDate_delegates:
  "formatDate lv (JStr ''2024-12-31T23:00:00Z'') (JStr ''Europe/Amsterdam'') =
     (Dayjs_value DayjsUtc (JStr ''2024-12-31T23:00:00Z'') (JStr ''Europe/Amsterdam'')
        ''MMM DD, YYYY'', [])"
  by (simp add: formatDate_def)

end
